theory Spec2Isabelle
  imports Main "HOL-Library.Char_ord" "HOL-Library.List_Lexorder"
begin

section \<open>The nodes of a parsed path expression\<close>

text \<open>
  The parser of \<^verbatim>\<open>k8s.io/client-go/util/jsonpath\<close> is a library outside the
  repository. It is a parameter of the model: a function from the text handed to
  \<^verbatim>\<open>jsonpath.Parse\<close> to either the library's error or the nodes of the parse root
  (\<^verbatim>\<open>jp.Root.Nodes\<close>). A node is a list node, a field node, or a node of another
  type; \<open>OtherNode t\<close> is a node whose \<^verbatim>\<open>Type()\<close> is \<open>t\<close> and which is neither a
  \<^verbatim>\<open>*ListNode\<close> nor a \<^verbatim>\<open>*FieldNode\<close>.
\<close>

datatype NodeType =
    NodeText | NodeArray | NodeList | NodeField | NodeIdentifier | NodeFilter
  | NodeInt | NodeFloat | NodeWildcard | NodeRecursive | NodeUnion | NodeBool

datatype Node = ListNode "Node list" | FieldNode string | OtherNode NodeType

fun Node_Type :: "Node \<Rightarrow> NodeType" where
  "Node_Type (ListNode ns) = NodeList"
| "Node_Type (FieldNode v) = NodeField"
| "Node_Type (OtherNode t) = t"

type_synonym jsonpath_Parse = "string \<Rightarrow> string + Node list"

section \<open>The output types of \<^verbatim>\<open>customresourcestate\<close>\<close>

text \<open>
  Modelled from the spec: the type declarations of package \<^verbatim>\<open>customresourcestate\<close>
  (\<^verbatim>\<open>MetricMeta\<close>, \<^verbatim>\<open>MetricGauge\<close>, \<^verbatim>\<open>MetricInfo\<close>, \<^verbatim>\<open>MetricStateSet\<close>,
  \<^verbatim>\<open>Metric\<close>, \<^verbatim>\<open>Generator\<close>, \<^verbatim>\<open>GroupVersionKind\<close>, \<^verbatim>\<open>Resource\<close>) are not among
  the sources. The specification gives a generator a name, a help text and a payload that
  is a gauge, an info or a state set, each with a path, a map from labels to paths and
  fields of its own; and a resource a group, version and kind, an optional name prefix, an
  optional map from labels to paths and a list of generators. The records below have these
  parts under the field names by which the sources read and write them. A Go pointer field
  is an \<open>option\<close> (\<open>None\<close> is nil), and so is a map that the code tests against nil.
\<close>

record MetricMeta =
  LabelsFromPath :: "string \<rightharpoonup> string list"
  Path :: "string list"

record MetricGauge =
  Gauge_MetricMeta :: MetricMeta
  Gauge_LabelFromKey :: string
  Gauge_ValueFrom :: "string list"
  Gauge_NilIsZero :: bool

record MetricInfo =
  Info_MetricMeta :: MetricMeta
  Info_LabelFromKey :: string

record MetricStateSet =
  StateSet_MetricMeta :: MetricMeta
  StateSet_List :: "string list"
  StateSet_LabelName :: string
  StateSet_ValueFrom :: "string list"

datatype MetricType =
    MetricTypeGauge | MetricTypeStateSet | MetricTypeInfo | MetricTypeOther string

record Metric =
  Type :: MetricType
  Gauge :: "MetricGauge option"
  StateSet :: "MetricStateSet option"
  Info :: "MetricInfo option"

record Generator =
  Name :: string
  Help :: string
  Each :: Metric

record GroupVersionKind =
  Group :: string
  Version :: string
  Kind :: string

record Resource =
  MetricNamePrefix :: "string option"
  GVK :: GroupVersionKind
  Resource_LabelsFromPath :: "(string \<rightharpoonup> string list) option"
  Metrics :: "Generator list"

section \<open>The annotation values (markers)\<close>

text \<open>
  A Go map that the code ranges over is an association list: the list order is the order
  in which the range visits the entries.
\<close>

record GaugeMarker =
  GaugeMarker_Name :: string
  GaugeMarker_Help :: string
  GaugeMarker_JSONPath :: string
  GaugeMarker_LabelFromKey :: string
  GaugeMarker_LabelsFromPath :: "(string \<times> string) list"
  GaugeMarker_NilIsZero :: bool
  GaugeMarker_ValueFrom :: "string option"

record InfoMarker =
  InfoMarker_Name :: string
  InfoMarker_Help :: string
  InfoMarker_LabelsFromPath :: "(string \<times> string) list"
  InfoMarker_JSONPath :: string
  InfoMarker_LabelFromKey :: string

record StateSetMarker =
  StateSetMarker_Name :: string
  StateSetMarker_Help :: string
  StateSetMarker_LabelsFromPath :: "(string \<times> string) list"
  StateSetMarker_JSONPath :: "string option"
  StateSetMarker_LabelName :: string
  StateSetMarker_List :: "string list"

record LabelFromPathMarker =
  LabelFromPathMarker_Name :: string
  LabelFromPathMarker_JSONPath :: string

section \<open>The type graph\<close>

text \<open>
  A \<^verbatim>\<open>*loader.Package\<close> is named by its import path. The type expression of a field
  is an \<^verbatim>\<open>ast.Expr\<close>; an identifier is kept by its name. What the type checker says
  about an identifier (\<^verbatim>\<open>TypesInfo.TypeOf\<close>) is one of: the invalid type, a basic type,
  a named type (with the path of the package of its object, and its name), or something
  else.
\<close>

type_synonym Package = string

datatype Expr =
    Ident string
  | SelectorExpr Expr string
  | ArrayType Expr
  | MapType Expr Expr
  | StarExpr Expr
  | StructType
  | InterfaceType
  | OtherExpr string

datatype go_type = Invalid | Basic | Named string string | OtherType

record TypeIdent =
  TypeIdent_Package :: "Package option"
  TypeIdent_Name :: string

datatype MarkerValue =
    GaugeMarkerV GaugeMarker
  | InfoMarkerV InfoMarker
  | StateSetMarkerV StateSetMarker
  | NamePrefixMarkerV string
  | LabelFromPathMarkerV LabelFromPathMarker
  | OtherMarkerV string

type_synonym MarkerValues = "(string \<times> MarkerValue list) list"

text \<open>A field: the value of its \<^verbatim>\<open>json\<close> struct tag as \<^verbatim>\<open>f.Tag.Lookup("json")\<close>
  returns it (\<open>None\<close> when the tag has no such key), its markers and its type expression
  (\<^verbatim>\<open>f.RawField.Type\<close>).\<close>

record FieldInfo =
  Field_jsonTag :: "string option"
  Field_Markers :: MarkerValues
  Field_Type :: Expr

record TypeInfo =
  TypeInfo_Markers :: MarkerValues
  TypeInfo_Fields :: "FieldInfo list"

record GroupVersion =
  gv_Group :: string
  gv_Version :: string

record GroupKind =
  gk_Group :: string
  gk_Kind :: string

section \<open>Errors, fatal exits and panics\<close>

text \<open>
  Go errors are values built by \<^verbatim>\<open>fmt.Errorf(format, args...)\<close>; they are kept as
  the format string with its arguments. \<^verbatim>\<open>klog.Fatal\<close> ends the process, and so
  does a runtime panic (index out of range, nil dereference, failed type assertion);
  both are results of their own, so that no caller can mistake them for a returned error.
\<close>

datatype arg =
    ArgString string
  | ArgInt int
  | ArgNodeType NodeType
  | ArgError string
  | ArgTypeIdent TypeIdent
  | ArgExpr Expr
  | ArgResource Resource

datatype error =
    Errorf string "arg list"
  | KlogFatal string "arg list"
  | RuntimePanic string

text \<open>\<^verbatim>\<open>if err != nil { klog.Fatal(err) }\<close>: a returned error ends the process; a panic
  that is already under way stays what it is.\<close>

fun klog_Fatal :: "error \<Rightarrow> error" where
  "klog_Fatal (Errorf f as) = KlogFatal f as"
| "klog_Fatal e = e"

text \<open>
  The parser. \<open>Types\<close> and \<open>GroupVersions\<close> are those of the embedded
  \<^verbatim>\<open>crd.Parser\<close>; \<open>GroupVersions\<close> is ranged over, so it is an association list.
  \<open>PackageErrors\<close> collects what \<^verbatim>\<open>pkg.AddError\<close> records.
\<close>

record parser =
  Types :: "TypeIdent \<rightharpoonup> TypeInfo"
  GroupVersions :: "(Package \<times> GroupVersion) list"
  CustomResourceStates :: "GroupKind \<rightharpoonup> Resource"
  FlattenedMetrics :: "TypeIdent \<rightharpoonup> Metric list"
  PackageErrors :: "(Package \<times> error) list"

section \<open>The path expression resolver (\<^verbatim>\<open>JSONPath.Parse\<close>)\<close>

text \<open>The loop over \<^verbatim>\<open>list.Nodes\<close>, with \<open>ret\<close> the slice built so far.\<close>

fun fieldValues :: "Node list \<Rightarrow> string list \<Rightarrow> error + string list" where
  "fieldValues [] ret = Inr ret"
| "fieldValues (FieldNode v # ns) ret = fieldValues ns (ret @ [v])"
| "fieldValues (n # ns) ret = Inl (Errorf ''unable to typecast to jsonpath.NodeField'' [])"

definition braced :: "string \<Rightarrow> string" where
  "braced j = CHR ''{'' # j @ [CHR ''}'']"

definition JSONPath_Parse :: "jsonpath_Parse \<Rightarrow> string \<Rightarrow> error + string list" where
  "JSONPath_Parse jp j =
     (case jp (braced j) of
        Inl err \<Rightarrow> Inl (Errorf ''parse JSONPath: %w'' [ArgError err])
      | Inr nodes \<Rightarrow>
          if length nodes > 1
          then Inl (Errorf ''expected a single JSONPath, got %d'' [ArgInt (int (length nodes))])
          else (case nodes of
                  [] \<Rightarrow> Inl (RuntimePanic ''index out of range [0] with length 0'')
                | n # rest \<Rightarrow>
                    (case n of
                       ListNode l \<Rightarrow> fieldValues l []
                     | FieldNode v \<Rightarrow>
                         Inl (Errorf ''unexcepted jsonpath node type: %q'' [ArgNodeType NodeField])
                     | OtherNode t \<Rightarrow>
                         if t = NodeList
                         then Inl (Errorf ''unable to typecast to jsonpath.ListNode'' [])
                         else Inl (Errorf ''unexcepted jsonpath node type: %q'' [ArgNodeType t]))))"

section \<open>Markers to generators, markers to resources\<close>

text \<open>The \<^verbatim>\<open>labelsFromPath\<close> loop of \<^verbatim>\<open>GaugeMarker.ToGenerator\<close> and of
  \<^verbatim>\<open>InfoMarker.ToGenerator\<close> (the two loops are the same text).\<close>

fun labelsFromPathLoop ::
  "jsonpath_Parse \<Rightarrow> (string \<times> string) list \<Rightarrow> (string \<rightharpoonup> string list)
     \<Rightarrow> error + (string \<rightharpoonup> string list)" where
  "labelsFromPathLoop jp [] labelsFromPath = Inr labelsFromPath"
| "labelsFromPathLoop jp ((k, v) # kvs) labelsFromPath =
     (if v \<noteq> ''.''
      then (case JSONPath_Parse jp v of
              Inl err \<Rightarrow> Inl (klog_Fatal err)
            | Inr path \<Rightarrow> labelsFromPathLoop jp kvs (labelsFromPath(k \<mapsto> path)))
      else labelsFromPathLoop jp kvs (labelsFromPath(k \<mapsto> [])))"

text \<open>The \<^verbatim>\<open>labelsFromPath\<close> loop of \<^verbatim>\<open>StateSetMarker.ToGenerator\<close>.\<close>

fun labelsFromPathLoop_StateSet ::
  "jsonpath_Parse \<Rightarrow> (string \<times> string) list \<Rightarrow> (string \<rightharpoonup> string list)
     \<Rightarrow> error + (string \<rightharpoonup> string list)" where
  "labelsFromPathLoop_StateSet jp [] labelsFromPath = Inr labelsFromPath"
| "labelsFromPathLoop_StateSet jp ((k, v) # kvs) labelsFromPath =
     (case JSONPath_Parse jp v of
        Inl err \<Rightarrow> Inl (klog_Fatal err)
      | Inr path \<Rightarrow> labelsFromPathLoop_StateSet jp kvs (labelsFromPath(k \<mapsto> path)))"

definition GaugeMarker_ToGenerator ::
  "jsonpath_Parse \<Rightarrow> GaugeMarker \<Rightarrow> string list \<Rightarrow> error + Generator" where
  "GaugeMarker_ToGenerator jp g basePath =
     (case JSONPath_Parse jp (GaugeMarker_JSONPath g) of
        Inl err \<Rightarrow> Inl (klog_Fatal err)
      | Inr additionalPath \<Rightarrow>
          (case (case GaugeMarker_ValueFrom g of
                   None \<Rightarrow> Inr []
                 | Some vf \<Rightarrow> JSONPath_Parse jp vf) of
             Inl err \<Rightarrow> Inl (klog_Fatal err)
           | Inr valueFrom \<Rightarrow>
               (case labelsFromPathLoop jp (GaugeMarker_LabelsFromPath g) Map.empty of
                  Inl err \<Rightarrow> Inl err
                | Inr labelsFromPath \<Rightarrow>
                    Inr \<lparr> Name = GaugeMarker_Name g,
                          Help = GaugeMarker_Help g,
                          Each = \<lparr> Type = MetricTypeGauge,
                                   Gauge = Some
                                     \<lparr> Gauge_MetricMeta =
                                         \<lparr> LabelsFromPath = labelsFromPath,
                                           Path = basePath @ additionalPath \<rparr>,
                                       Gauge_LabelFromKey = GaugeMarker_LabelFromKey g,
                                       Gauge_ValueFrom = valueFrom,
                                       Gauge_NilIsZero = GaugeMarker_NilIsZero g \<rparr>,
                                   StateSet = None,
                                   Info = None \<rparr> \<rparr>)))"

definition InfoMarker_ToGenerator ::
  "jsonpath_Parse \<Rightarrow> InfoMarker \<Rightarrow> string list \<Rightarrow> error + Generator" where
  "InfoMarker_ToGenerator jp i basePath =
     (case (if InfoMarker_JSONPath i \<noteq> ''''
            then (case JSONPath_Parse jp (InfoMarker_JSONPath i) of
                    Inl err \<Rightarrow> Inl (klog_Fatal err)
                  | Inr valueFrom \<Rightarrow>
                      if length valueFrom > 0 then Inr (basePath @ valueFrom) else Inr basePath)
            else Inr basePath) of
        Inl err \<Rightarrow> Inl err
      | Inr path \<Rightarrow>
          (case labelsFromPathLoop jp (InfoMarker_LabelsFromPath i) Map.empty of
             Inl err \<Rightarrow> Inl err
           | Inr labelsFromPath \<Rightarrow>
               Inr \<lparr> Name = InfoMarker_Name i,
                     Help = InfoMarker_Help i,
                     Each = \<lparr> Type = MetricTypeInfo,
                              Gauge = None,
                              StateSet = None,
                              Info = Some
                                \<lparr> Info_MetricMeta =
                                    \<lparr> LabelsFromPath = labelsFromPath, Path = path \<rparr>,
                                  Info_LabelFromKey = InfoMarker_LabelFromKey i \<rparr> \<rparr> \<rparr>))"

definition StateSetMarker_ToGenerator ::
  "jsonpath_Parse \<Rightarrow> StateSetMarker \<Rightarrow> string list \<Rightarrow> error + Generator" where
  "StateSetMarker_ToGenerator jp s basePath =
     (let path = basePath in
      case (case StateSetMarker_JSONPath s of
              None \<Rightarrow> Inr []
            | Some j \<Rightarrow> JSONPath_Parse jp j) of
        Inl err \<Rightarrow> Inl (klog_Fatal err)
      | Inr valueFrom \<Rightarrow>
          (case labelsFromPathLoop_StateSet jp (StateSetMarker_LabelsFromPath s) Map.empty of
             Inl err \<Rightarrow> Inl err
           | Inr labelsFromPath \<Rightarrow>
               Inr \<lparr> Name = StateSetMarker_Name s,
                     Help = StateSetMarker_Help s,
                     Each = \<lparr> Type = MetricTypeStateSet,
                              Gauge = None,
                              StateSet = Some
                                \<lparr> StateSet_MetricMeta =
                                    \<lparr> LabelsFromPath = labelsFromPath, Path = path \<rparr>,
                                  StateSet_List = StateSetMarker_List s,
                                  StateSet_LabelName = StateSetMarker_LabelName s,
                                  StateSet_ValueFrom = valueFrom \<rparr>,
                              Info = None \<rparr> \<rparr>))"


text \<open>The loop \<^verbatim>\<open>for i, v := range jsonPath\<close> that compares the existing path with
  the new one, element by element. The source enters it after the test that the two
  lengths are equal, so the second equation, where the new path has run out (an index out
  of range in the source), is never reached from there.\<close>

fun pathsDiffer :: "string list \<Rightarrow> string list \<Rightarrow> bool" where
  "pathsDiffer [] jsonPathElems = False"
| "pathsDiffer (v # vs) [] = True"
| "pathsDiffer (v # vs) (e # es) = (if v \<noteq> e then True else pathsDiffer vs es)"

definition LabelFromPathMarker_ApplyToResource ::
  "jsonpath_Parse \<Rightarrow> LabelFromPathMarker \<Rightarrow> Resource \<Rightarrow> Resource \<times> error option" where
  "LabelFromPathMarker_ApplyToResource jp n resource0 =
     (let resource =
            (if Resource_LabelsFromPath resource0 = None
             then resource0\<lparr>Resource_LabelsFromPath := Some Map.empty\<rparr>
             else resource0);
          labels = (case Resource_LabelsFromPath resource of None \<Rightarrow> Map.empty | Some m \<Rightarrow> m)
      in case JSONPath_Parse jp (LabelFromPathMarker_JSONPath n) of
           Inl err \<Rightarrow> (resource, Some err)
         | Inr jsonPathElems \<Rightarrow>
             (case labels (LabelFromPathMarker_Name n) of
                Some jsonPath \<Rightarrow>
                  if length jsonPathElems \<noteq> length jsonPath
                  then (resource, Some (Errorf ''duplicate definition for label %q''
                                           [ArgString (LabelFromPathMarker_Name n)]))
                  else if pathsDiffer jsonPath jsonPathElems
                  then (resource, Some (Errorf ''duplicate definition for label %q''
                                           [ArgString (LabelFromPathMarker_Name n)]))
                  else (resource\<lparr>Resource_LabelsFromPath :=
                                    Some (labels(LabelFromPathMarker_Name n \<mapsto> jsonPathElems))\<rparr>,
                        None)
              | None \<Rightarrow>
                  (resource\<lparr>Resource_LabelsFromPath :=
                               Some (labels(LabelFromPathMarker_Name n \<mapsto> jsonPathElems))\<rparr>,
                   None)))"

section \<open>What the engine takes from its collaborators\<close>

text \<open>
  The functions and the constant that the sources call and that are declared outside them:
  the path expression parser of the library, the type checker's answer for an identifier
  of a package (\<^verbatim>\<open>ctx.pkg.TypesInfo.TypeOf\<close>), the imports of a package by import path
  (\<^verbatim>\<open>pkg.Imports()\<close>), \<^verbatim>\<open>loader.NonVendorPath\<close>, the name of the marker of a
  tracked kind (\<^verbatim>\<open>markers.GVKMarkerName\<close>), the lookup of a marker by name
  (\<^verbatim>\<open>MarkerValues.Get\<close> of the markers library, \<open>None\<close> for nil), and
  \<^verbatim>\<open>sort.Slice\<close>, which sorts by a comparison and is not stable.
\<close>

record env =
  jsonpath :: jsonpath_Parse
  TypeOf :: "Package \<Rightarrow> string \<Rightarrow> go_type"
  Imports :: "Package \<Rightarrow> string \<rightharpoonup> Package"
  NonVendorPath :: "string \<Rightarrow> string"
  GVKMarkerName :: string
  MarkerValues_Get :: "MarkerValues \<Rightarrow> string \<Rightarrow> MarkerValue option"
  sort_Slice :: "(Generator \<Rightarrow> Generator \<Rightarrow> bool) \<Rightarrow> Generator list \<Rightarrow> Generator list"

text \<open>\<^verbatim>\<open>strings.Split(s, ",")\<close>, for a one-character separator.\<close>

fun strings_Split :: "string \<Rightarrow> char \<Rightarrow> string list" where
  "strings_Split [] sep = [] # []"
| "strings_Split (c # cs) sep =
     (if c = sep then [] # strings_Split cs sep
      else (case strings_Split cs sep of
              [] \<Rightarrow> [c] # []
            | x # xs \<Rightarrow> (c # x) # xs))"

section \<open>The generator assembler\<close>

text \<open>The type assertion \<^verbatim>\<open>val.(markers.LocalGeneratorMarker)\<close> followed by
  \<^verbatim>\<open>ToGenerator\<close>: \<open>None\<close> for a value that is no generator marker.\<close>

fun ToGenerator ::
  "jsonpath_Parse \<Rightarrow> MarkerValue \<Rightarrow> string list \<Rightarrow> (error + Generator) option" where
  "ToGenerator jp (GaugeMarkerV g) basePath = Some (GaugeMarker_ToGenerator jp g basePath)"
| "ToGenerator jp (InfoMarkerV i) basePath = Some (InfoMarker_ToGenerator jp i basePath)"
| "ToGenerator jp (StateSetMarkerV s) basePath = Some (StateSetMarker_ToGenerator jp s basePath)"
| "ToGenerator jp (NamePrefixMarkerV n) basePath = None"
| "ToGenerator jp (LabelFromPathMarkerV n) basePath = None"
| "ToGenerator jp (OtherMarkerV n) basePath = None"

text \<open>\<^verbatim>\<open>generatorsFromMarkers\<close>: the inner loop over the values of one marker name, the
  outer loop over the marker names.\<close>

fun generatorsFromValues ::
  "jsonpath_Parse \<Rightarrow> MarkerValue list \<Rightarrow> string list \<Rightarrow> Generator list
     \<Rightarrow> error + Generator list" where
  "generatorsFromValues jp [] basePath generators = Inr generators"
| "generatorsFromValues jp (val # vals) basePath generators =
     (case ToGenerator jp val basePath of
        None \<Rightarrow> generatorsFromValues jp vals basePath generators
      | Some (Inl err) \<Rightarrow> Inl err
      | Some (Inr g) \<Rightarrow> generatorsFromValues jp vals basePath (generators @ [g]))"

fun generatorsFromMarkerNames ::
  "jsonpath_Parse \<Rightarrow> MarkerValues \<Rightarrow> string list \<Rightarrow> Generator list
     \<Rightarrow> error + Generator list" where
  "generatorsFromMarkerNames jp [] basePath generators = Inr generators"
| "generatorsFromMarkerNames jp ((name, markerVals) # m) basePath generators =
     (case generatorsFromValues jp markerVals basePath generators of
        Inl err \<Rightarrow> Inl err
      | Inr generators' \<Rightarrow> generatorsFromMarkerNames jp m basePath generators')"

definition generatorsFromMarkers ::
  "jsonpath_Parse \<Rightarrow> MarkerValues \<Rightarrow> string list \<Rightarrow> error + Generator list" where
  "generatorsFromMarkers jp m basePath = generatorsFromMarkerNames jp m basePath []"

text \<open>\<^verbatim>\<open>prependPathOnGenerator\<close>. The payloads hang on pointers: a generator whose
  type names a payload that is nil makes the assignment panic. A type other than the
  three constants falls through the switch.\<close>

definition prependPathOnGenerator :: "Generator \<Rightarrow> string \<Rightarrow> error + Generator" where
  "prependPathOnGenerator generator pathPrefix =
     (case Type (Each generator) of
        MetricTypeGauge \<Rightarrow>
          (case Gauge (Each generator) of
             None \<Rightarrow> Inl (RuntimePanic ''nil pointer dereference'')
           | Some mg \<Rightarrow>
               Inr (generator\<lparr>Each := (Each generator)\<lparr>Gauge := Some
                      (mg\<lparr>Gauge_MetricMeta := (Gauge_MetricMeta mg)
                            \<lparr>Path := pathPrefix # Path (Gauge_MetricMeta mg)\<rparr>\<rparr>)\<rparr>\<rparr>))
      | MetricTypeStateSet \<Rightarrow>
          (case StateSet (Each generator) of
             None \<Rightarrow> Inl (RuntimePanic ''nil pointer dereference'')
           | Some ms \<Rightarrow>
               Inr (generator\<lparr>Each := (Each generator)\<lparr>StateSet := Some
                      (ms\<lparr>StateSet_MetricMeta := (StateSet_MetricMeta ms)
                            \<lparr>Path := pathPrefix # Path (StateSet_MetricMeta ms)\<rparr>\<rparr>)\<rparr>\<rparr>))
      | MetricTypeInfo \<Rightarrow>
          (case Info (Each generator) of
             None \<Rightarrow> Inl (RuntimePanic ''nil pointer dereference'')
           | Some mi \<Rightarrow>
               Inr (generator\<lparr>Each := (Each generator)\<lparr>Info := Some
                      (mi\<lparr>Info_MetricMeta := (Info_MetricMeta mi)
                            \<lparr>Path := pathPrefix # Path (Info_MetricMeta mi)\<rparr>\<rparr>)\<rparr>\<rparr>))
      | MetricTypeOther t \<Rightarrow> Inr generator)"

text \<open>
  A call that asks for the generators of a type can fail to return: the result of such a
  call is an \<open>option\<close>, \<open>None\<close> when the call has not returned within the depth of
  calls allowed to it. The context holds the package and the requester
  (\<^verbatim>\<open>generatorRequester\<close>, an interface in the source, a function here).
\<close>

type_synonym generators_result = "(error + Generator list) option"

record generatorContext =
  ctx_pkg :: Package
  ctx_generatorRequester :: "TypeIdent \<Rightarrow> generators_result"

definition requestGenerator ::
  "env \<Rightarrow> generatorContext \<Rightarrow> string \<Rightarrow> string \<Rightarrow> generators_result" where
  "requestGenerator e c pkgPath typeName =
     (let pkg = (if pkgPath \<noteq> '''' then Imports e (ctx_pkg c) pkgPath else Some (ctx_pkg c))
      in ctx_generatorRequester c \<lparr>TypeIdent_Package = pkg, TypeIdent_Name = typeName\<rparr>)"

definition localNamedToGenerators ::
  "env \<Rightarrow> generatorContext \<Rightarrow> string \<Rightarrow> generators_result" where
  "localNamedToGenerators e ctx ident =
     (case TypeOf e (ctx_pkg ctx) ident of
        Invalid \<Rightarrow> Some (Inr [])
      | Basic \<Rightarrow> Some (Inr [])
      | Named pkg name \<Rightarrow>
          requestGenerator e ctx (if pkg = ctx_pkg ctx then '''' else NonVendorPath e pkg) name
      | OtherType \<Rightarrow> Some (Inl (RuntimePanic ''interface conversion: not *types.Named'')))"

fun generatorsFor :: "env \<Rightarrow> generatorContext \<Rightarrow> Expr \<Rightarrow> generators_result" where
  "generatorsFor e ctx (Ident name) = localNamedToGenerators e ctx name"
| "generatorsFor e ctx (SelectorExpr X sel) = generatorsFor e ctx X"
| "generatorsFor e ctx (ArrayType elt) = Some (Inr [])"
| "generatorsFor e ctx (MapType k v) = Some (Inr [])"
| "generatorsFor e ctx (StarExpr X) = generatorsFor e ctx X"
| "generatorsFor e ctx StructType =
     Some (Inl (KlogFatal ''unsupported AST kind %T'' [ArgExpr StructType]))"
| "generatorsFor e ctx expr =
     Some (Inl (KlogFatal ''unsupported AST kind %T'' [ArgExpr expr]))"

text \<open>The loop \<^verbatim>\<open>for _, generator := range generatorsFor(...)\<close> of
  \<^verbatim>\<open>NeedMetricsGeneratorFor\<close>.\<close>

fun prependLoop :: "Generator list \<Rightarrow> string \<Rightarrow> Generator list \<Rightarrow> error + Generator list" where
  "prependLoop [] pathPrefix generators = Inr generators"
| "prependLoop (generator # gs) pathPrefix generators =
     (case prependPathOnGenerator generator pathPrefix of
        Inl err \<Rightarrow> Inl err
      | Inr g \<Rightarrow> prependLoop gs pathPrefix (generators @ [g]))"

text \<open>The loop over \<^verbatim>\<open>info.Fields\<close>, with the requester that the context is built
  with.\<close>

fun fieldsLoop ::
  "env \<Rightarrow> (TypeIdent \<Rightarrow> generators_result) \<Rightarrow> TypeIdent \<Rightarrow> FieldInfo list \<Rightarrow> Generator list
     \<Rightarrow> generators_result" where
  "fieldsLoop e req typ [] generators = Some (Inr generators)"
| "fieldsLoop e req typ (f # fs) generators =
     (case Field_jsonTag f of
        None \<Rightarrow> fieldsLoop e req typ fs generators
      | Some jsonTag \<Rightarrow>
          (case strings_Split jsonTag (CHR '','') of
             [] \<Rightarrow> Some (Inl (RuntimePanic ''index out of range [0] with length 0''))
           | opt0 # opts \<Rightarrow>
               if opts = [] \<and> opt0 = ''-'' then fieldsLoop e req typ fs generators
               else
                 (case generatorsFromMarkers (jsonpath e) (Field_Markers f) [opt0] of
                    Inl err \<Rightarrow> Some (Inl err)
                  | Inr own \<Rightarrow>
                      (case TypeIdent_Package typ of
                         None \<Rightarrow> Some (Inl (RuntimePanic ''nil pointer dereference''))
                       | Some pkg \<Rightarrow>
                           (case generatorsFor e
                                   \<lparr>ctx_pkg = pkg, ctx_generatorRequester = req\<rparr>
                                   (Field_Type f) of
                              None \<Rightarrow> None
                            | Some (Inl err) \<Rightarrow> Some (Inl err)
                            | Some (Inr sub) \<Rightarrow>
                                (case prependLoop sub opt0 (generators @ own) of
                                   Inl err \<Rightarrow> Some (Inl err)
                                 | Inr generators' \<Rightarrow>
                                     fieldsLoop e req typ fs generators'))))))"

text \<open>
  \<^verbatim>\<open>NeedMetricsGeneratorFor\<close>. The first argument bounds the depth of the nested calls
  of the function: at depth \<open>0\<close> the call has not returned. The body reads
  \<open>FlattenedMetrics\<close> and holds no assignment to it, nor to any other field of the
  parser: the parser after the call is the parser before it.
\<close>

fun NeedMetricsGeneratorFor :: "nat \<Rightarrow> env \<Rightarrow> parser \<Rightarrow> TypeIdent \<Rightarrow> generators_result" where
  "NeedMetricsGeneratorFor 0 e p typ = None"
| "NeedMetricsGeneratorFor (Suc depth) e p typ =
     (if FlattenedMetrics p typ \<noteq> None then Some (Inr [])
      else
        (case Types p typ of
           None \<Rightarrow>
             Some (Inl (KlogFatal ''expected to get info for %v but does not exist''
                          [ArgTypeIdent typ]))
         | Some info \<Rightarrow>
             (case generatorsFromMarkers (jsonpath e) (TypeInfo_Markers info) [] of
                Inl err \<Rightarrow> Some (Inl err)
              | Inr generators \<Rightarrow>
                  fieldsLoop e (\<lambda>t. NeedMetricsGeneratorFor depth e p t) typ
                    (TypeInfo_Fields info) generators)))"

section \<open>The resource builder\<close>








section \<open>The document assembler: the comparison of two resources\<close>

text \<open>The function handed to \<^verbatim>\<open>sort.Slice\<close> in \<^verbatim>\<open>Generate\<close>, on the resources at
  the two indices. Strings compare byte by byte. Reading through a nil pointer panics.\<close>

definition gvkString :: "Resource \<Rightarrow> string" where
  "gvkString r = Group (GVK r) @ ''/'' @ Version (GVK r) @ ''/'' @ Kind (GVK r)"

definition resourceLess :: "Resource \<Rightarrow> Resource \<Rightarrow> error + bool" where
  "resourceLess ri rj =
     (if MetricNamePrefix ri = None \<and> MetricNamePrefix rj = None
      then Inr (gvkString ri < gvkString rj)
      else
        (case (if MetricNamePrefix ri = None
               then (case MetricNamePrefix ri of
                       None \<Rightarrow> Inl (RuntimePanic ''nil pointer dereference'')
                     | Some s \<Rightarrow> Inr s)
               else Inr '''') of
           Inl err \<Rightarrow> Inl err
         | Inr a \<Rightarrow>
             (let b = (case MetricNamePrefix rj of None \<Rightarrow> '''' | Some s \<Rightarrow> s)
              in Inr (a < b))))"

section \<open>Reading a generator, reading the packages of a kind\<close>

text \<open>The path a generator stores, and its label paths: those of the payload that its
  type names.\<close>

definition storedMeta :: "Generator \<Rightarrow> MetricMeta option" where
  "storedMeta g =
     (case Type (Each g) of
        MetricTypeGauge \<Rightarrow> map_option Gauge_MetricMeta (Gauge (Each g))
      | MetricTypeStateSet \<Rightarrow> map_option StateSet_MetricMeta (StateSet (Each g))
      | MetricTypeInfo \<Rightarrow> map_option Info_MetricMeta (Info (Each g))
      | MetricTypeOther t \<Rightarrow> None)"

definition storedPath :: "Generator \<Rightarrow> string list option" where
  "storedPath g = map_option Path (storedMeta g)"

definition storedLabel :: "Generator \<Rightarrow> string \<Rightarrow> string list option" where
  "storedLabel g k = (case storedMeta g of None \<Rightarrow> None | Some m \<Rightarrow> LabelsFromPath m k)"

text \<open>A requester all of whose generators store a path.\<close>

definition requesterStored :: "(TypeIdent \<Rightarrow> generators_result) \<Rightarrow> bool" where
  "requesterStored req =
     (\<forall>t gs. req t = Some (Inr gs) \<longrightarrow> (\<forall>g\<in>set gs. storedPath g \<noteq> None))"

text \<open>The label path that the generator of a result stores under a name, and the message
  of the fatal exit of a result.\<close>

definition resultLabel :: "string \<Rightarrow> error + Generator \<Rightarrow> error + string list option" where
  "resultLabel k r = (case r of Inl err \<Rightarrow> Inl err | Inr g \<Rightarrow> Inr (storedLabel g k))"


text \<open>The label map of a resource, a nil map reading as the empty one.\<close>

definition labelsOf :: "Resource \<Rightarrow> (string \<rightharpoonup> string list)" where
  "labelsOf r = (case Resource_LabelsFromPath r of None \<Rightarrow> Map.empty | Some m \<Rightarrow> m)"



section \<open>Example inputs\<close>

text \<open>
  A table standing for the path expression library on a few texts: a chain of field
  names gives one list node of field nodes, the empty expression one empty list node, the
  expression \<^verbatim>\<open>.\<close> one field node with the empty name, two actions two list nodes, an
  index a node that is no field node.
\<close>

definition jsonpath_table :: jsonpath_Parse where
  "jsonpath_table text =
     (if text = ''{}'' then Inr [ListNode []]
      else if text = ''{.}'' then Inr [ListNode [FieldNode '''']]
      else if text = ''{.foo}'' then Inr [ListNode [FieldNode ''foo'']]
      else if text = ''{.bar}'' then Inr [ListNode [FieldNode ''bar'']]
      else if text = ''{.spec.replicas}''
        then Inr [ListNode [FieldNode ''spec'', FieldNode ''replicas'']]
      else if text = ''{.a}{.b}''
        then Inr [ListNode [FieldNode ''a''], ListNode [FieldNode ''b'']]
      else if text = ''{.items[0]}''
        then Inr [ListNode [FieldNode ''items'', OtherNode NodeArray]]
      else Inl ''unrecognized character in action'')"

text \<open>The lookup of a marker by name as the markers library has it: the first value
  under the name, or nil.\<close>

definition firstValue :: "MarkerValues \<Rightarrow> string \<Rightarrow> MarkerValue option" where
  "firstValue m name =
     (case map_of m name of
        None \<Rightarrow> None
      | Some [] \<Rightarrow> None
      | Some (v # vals) \<Rightarrow> Some v)"

text \<open>An insertion sort, as one function that \<^verbatim>\<open>sort.Slice\<close> can be.\<close>

fun insertLess :: "('a \<Rightarrow> 'a \<Rightarrow> bool) \<Rightarrow> 'a \<Rightarrow> 'a list \<Rightarrow> 'a list" where
  "insertLess lt x [] = [x]"
| "insertLess lt x (y # ys) = (if lt x y then x # y # ys else y # insertLess lt x ys)"

definition insertionSort :: "('a \<Rightarrow> 'a \<Rightarrow> bool) \<Rightarrow> 'a list \<Rightarrow> 'a list" where
  "insertionSort lt xs = foldr (insertLess lt) xs []"

definition env_example :: env where
  "env_example =
     \<lparr> jsonpath = jsonpath_table,
       TypeOf = (\<lambda>pkg ident.
                   if ident = ''Node'' \<or> ident = ''Status'' then Named pkg ident
                   else if ident = ''int32'' \<or> ident = ''string'' then Basic
                   else Invalid),
       Imports = (\<lambda>pkg path. None),
       NonVendorPath = (\<lambda>path. path),
       GVKMarkerName = ''Metrics:gvk'',
       MarkerValues_Get = firstValue,
       sort_Slice = insertionSort \<rparr>"

definition gauge_example :: "string \<Rightarrow> GaugeMarker" where
  "gauge_example name =
     \<lparr> GaugeMarker_Name = name,
       GaugeMarker_Help = '''',
       GaugeMarker_JSONPath = '''',
       GaugeMarker_LabelFromKey = '''',
       GaugeMarker_LabelsFromPath = [],
       GaugeMarker_NilIsZero = False,
       GaugeMarker_ValueFrom = None \<rparr>"

definition info_example :: "string \<Rightarrow> InfoMarker" where
  "info_example name =
     \<lparr> InfoMarker_Name = name,
       InfoMarker_Help = '''',
       InfoMarker_LabelsFromPath = [],
       InfoMarker_JSONPath = '''',
       InfoMarker_LabelFromKey = '''' \<rparr>"

definition stateset_example :: "string \<Rightarrow> StateSetMarker" where
  "stateset_example name =
     \<lparr> StateSetMarker_Name = name,
       StateSetMarker_Help = '''',
       StateSetMarker_LabelsFromPath = [],
       StateSetMarker_JSONPath = None,
       StateSetMarker_LabelName = ''phase'',
       StateSetMarker_List = [''Pending'', ''Ready''] \<rparr>"

text \<open>
  Two packages of the group \<^verbatim>\<open>example.com\<close>, both of version \<^verbatim>\<open>v1\<close>. The first
  declares
  \<^item> \<^verbatim>\<open>Widget\<close>, a tracked kind with a gauge on the type and no field;
  \<^item> \<^verbatim>\<open>Node\<close>, with one field \<^verbatim>\<open>Next *Node `json:"next,omitempty"`\<close>;
  \<^item> \<^verbatim>\<open>Outer\<close>, with one field \<^verbatim>\<open>Status Status `json:"status"`\<close>;
  \<^item> \<^verbatim>\<open>Status\<close>, with one field \<^verbatim>\<open>Replicas int32 `json:"replicas"`\<close> that carries
    a gauge with no path expression.
  The second declares \<^verbatim>\<open>Widget\<close> as well, tracked too.
\<close>

definition pkg_v1 :: Package where
  "pkg_v1 = ''example.com/api/v1''"

definition pkg_other :: Package where
  "pkg_other = ''example.com/other/v1''"

definition widget_info :: TypeInfo where
  "widget_info =
     \<lparr> TypeInfo_Markers =
         [(''Metrics:gvk'', [OtherMarkerV ''gvk'']),
          (''Metrics:gauge'', [GaugeMarkerV (gauge_example ''widget_count'')])],
       TypeInfo_Fields = [] \<rparr>"

definition node_info :: TypeInfo where
  "node_info =
     \<lparr> TypeInfo_Markers = [],
       TypeInfo_Fields =
         [\<lparr> Field_jsonTag = Some ''next,omitempty'',
            Field_Markers = [],
            Field_Type = StarExpr (Ident ''Node'') \<rparr>] \<rparr>"

definition outer_info :: TypeInfo where
  "outer_info =
     \<lparr> TypeInfo_Markers = [],
       TypeInfo_Fields =
         [\<lparr> Field_jsonTag = Some ''status'',
            Field_Markers = [],
            Field_Type = Ident ''Status'' \<rparr>] \<rparr>"

definition status_info :: TypeInfo where
  "status_info =
     \<lparr> TypeInfo_Markers = [],
       TypeInfo_Fields =
         [\<lparr> Field_jsonTag = Some ''replicas'',
            Field_Markers = [(''Metrics:gauge'', [GaugeMarkerV (gauge_example ''replicas'')])],
            Field_Type = Ident ''int32'' \<rparr>] \<rparr>"

definition typeIdent_example :: "Package \<Rightarrow> string \<Rightarrow> TypeIdent" where
  "typeIdent_example pkg name = \<lparr>TypeIdent_Package = Some pkg, TypeIdent_Name = name\<rparr>"

definition parser_example :: parser where
  "parser_example =
     \<lparr> Types = (\<lambda>t.
         if t = typeIdent_example pkg_v1 ''Widget'' then Some widget_info
         else if t = typeIdent_example pkg_other ''Widget'' then Some widget_info
         else if t = typeIdent_example pkg_v1 ''Node'' then Some node_info
         else if t = typeIdent_example pkg_v1 ''Outer'' then Some outer_info
         else if t = typeIdent_example pkg_v1 ''Status'' then Some status_info
         else None),
       GroupVersions =
         [(pkg_v1, \<lparr>gv_Group = ''example.com'', gv_Version = ''v1''\<rparr>),
          (pkg_other, \<lparr>gv_Group = ''example.com'', gv_Version = ''v1''\<rparr>)],
       CustomResourceStates = Map.empty,
       FlattenedMetrics = Map.empty,
       PackageErrors = [] \<rparr>"

definition resource_example :: "string option \<Rightarrow> string \<Rightarrow> Resource" where
  "resource_example prefix kind =
     \<lparr> MetricNamePrefix = prefix,
       GVK = \<lparr> Group = ''example.com'', Version = ''v1'', Kind = kind \<rparr>,
       Resource_LabelsFromPath = Some [''team'' \<mapsto> [''foo'']],
       Metrics = [] \<rparr>"

definition jsonpath_failing :: jsonpath_Parse where
  "jsonpath_failing text = Inl ''unclosed action''"

definition groupKind_example :: GroupKind where
  "groupKind_example = \<lparr>gk_Group = ''example.com'', gk_Kind = ''Widget''\<rparr>"

text \<open>The generator of the gauge on \<^verbatim>\<open>Replicas\<close>, as the walk of \<^verbatim>\<open>Status\<close> gives
  it.\<close>

definition generator_example :: Generator where
  "generator_example =
     \<lparr> Name = ''replicas'',
       Help = '''',
       Each = \<lparr> Type = MetricTypeGauge,
                Gauge = Some \<lparr> Gauge_MetricMeta = \<lparr> LabelsFromPath = Map.empty,
                                                     Path = [''replicas''] \<rparr>,
                               Gauge_LabelFromKey = '''',
                               Gauge_ValueFrom = [],
                               Gauge_NilIsZero = False \<rparr>,
                StateSet = None,
                Info = None \<rparr> \<rparr>"

definition status_field :: FieldInfo where
  "status_field =
     \<lparr> Field_jsonTag = Some ''status'',
       Field_Markers = [],
       Field_Type = Ident ''Status'' \<rparr>"

section \<open>Unfolding the examples\<close>

lemmas example_defs =
  env_example_def parser_example_def typeIdent_example_def pkg_v1_def pkg_other_def
  widget_info_def node_info_def outer_info_def status_info_def gauge_example_def
  info_example_def stateset_example_def resource_example_def groupKind_example_def
  generator_example_def status_field_def jsonpath_failing_def

lemmas eval_defs =
  generatorsFromMarkers_def GaugeMarker_ToGenerator_def InfoMarker_ToGenerator_def
  StateSetMarker_ToGenerator_def JSONPath_Parse_def braced_def jsonpath_table_def
  prependPathOnGenerator_def localNamedToGenerators_def requestGenerator_def
  storedPath_def storedMeta_def storedLabel_def resultLabel_def

section \<open>Properties of the path expression resolver\<close>

lemma fieldValues_fields: "fieldValues (map FieldNode ns) ret = Inr (ret @ ns)"
  by (induction ns arbitrary: ret) auto

text \<open>The loop over the nodes of a list node either collects the names of a list of field
  nodes or stops with the one error it has.\<close>

lemma fieldValues_cases:
  "(\<exists>ns. l = map FieldNode ns \<and> fieldValues l ret = Inr (ret @ ns)) \<or>
   fieldValues l ret = Inl (Errorf ''unable to typecast to jsonpath.NodeField'' [])"
proof (induction l ret rule: fieldValues.induct)
  case (1 ret)
  then show ?case by simp
next
  case (2 v ns ret)
  then show ?case
  proof
    assume "\<exists>ms. ns = map FieldNode ms \<and> fieldValues ns (ret @ [v]) = Inr ((ret @ [v]) @ ms)"
    then obtain ms where "ns = map FieldNode ms"
      and "fieldValues ns (ret @ [v]) = Inr ((ret @ [v]) @ ms)"
      by blast
    then have "FieldNode v # ns = map FieldNode (v # ms) \<and>
               fieldValues (FieldNode v # ns) ret = Inr (ret @ (v # ms))" by simp
    then have "\<exists>ks. FieldNode v # ns = map FieldNode ks \<and>
               fieldValues (FieldNode v # ns) ret = Inr (ret @ ks)" by (rule exI)
    then show ?thesis by (rule disjI1)
  next
    assume "fieldValues ns (ret @ [v]) =
              Inl (Errorf ''unable to typecast to jsonpath.NodeField'' [])"
    then show ?thesis by simp
  qed
qed simp_all

lemma fieldValues_errors:
  "fieldValues l ret \<noteq> Inl (Errorf ''duplicate definition for label %q'' as)"
  using fieldValues_cases [of l ret] by auto

lemma JSONPath_Parse_errors:
  "JSONPath_Parse jp j = Inl err \<Longrightarrow>
   err \<noteq> Errorf ''duplicate definition for label %q'' as"
  by (auto simp: JSONPath_Parse_def fieldValues_errors
           split: sum.splits if_splits list.splits Node.splits)

text \<open>
  Claim C9. For a path expression whose parse is one list node of \<open>N\<close> field nodes,
  \<^verbatim>\<open>Parse\<close> returns the \<open>N\<close> names in their order. For every other parse the library
  can give (the library's own error, more than one root node, one root node that is no
  list node, a list node with an element that is no field node) \<^verbatim>\<open>Parse\<close> returns an
  error. The library puts a list node under the root for the opening brace that
  \<^verbatim>\<open>Parse\<close> adds, so that a successful parse has at least one root node; with no root
  node at all the index \<^verbatim>\<open>jp.Root.Nodes[0]\<close> would panic.
\<close>

theorem C9_resolve:
  "(jp (braced p) = Inr [ListNode (map FieldNode names)] \<longrightarrow> JSONPath_Parse jp p = Inr names) \<and>
   (jp (braced p) \<noteq> Inr [] \<longrightarrow>
    (\<nexists>ns. jp (braced p) = Inr [ListNode (map FieldNode ns)]) \<longrightarrow>
      (\<exists>f as. JSONPath_Parse jp p = Inl (Errorf f as)))"
proof (intro conjI impI)
  assume "jp (braced p) = Inr [ListNode (map FieldNode names)]"
  then show "JSONPath_Parse jp p = Inr names"
    by (simp add: JSONPath_Parse_def fieldValues_fields)
next
  assume ne: "jp (braced p) \<noteq> Inr []"
    and nochain: "\<nexists>ns. jp (braced p) = Inr [ListNode (map FieldNode ns)]"
  show "\<exists>f as. JSONPath_Parse jp p = Inl (Errorf f as)"
  proof (cases "jp (braced p)")
    case (Inl err)
    then show ?thesis by (simp add: JSONPath_Parse_def)
  next
    case (Inr nodes)
    show ?thesis
    proof (cases nodes)
      case Nil
      with Inr ne show ?thesis by simp
    next
      case (Cons n rest)
      show ?thesis
      proof (cases rest)
        case (Cons m rest')
        with Inr \<open>nodes = n # rest\<close> show ?thesis by (simp add: JSONPath_Parse_def)
      next
        case Nil
        show ?thesis
        proof (cases n)
          case (ListNode l)
          from fieldValues_cases [of l "[]"] show ?thesis
          proof
            assume "\<exists>ns. l = map FieldNode ns \<and> fieldValues l [] = Inr ([] @ ns)"
            with nochain Inr \<open>nodes = n # rest\<close> Nil ListNode show ?thesis by auto
          next
            assume "fieldValues l [] =
                      Inl (Errorf ''unable to typecast to jsonpath.NodeField'' [])"
            with Inr \<open>nodes = n # rest\<close> Nil ListNode show ?thesis
              by (simp add: JSONPath_Parse_def)
          qed
        next
          case (FieldNode v)
          with Inr \<open>nodes = n # rest\<close> Nil show ?thesis by (simp add: JSONPath_Parse_def)
        next
          case (OtherNode t)
          with Inr \<open>nodes = n # rest\<close> Nil show ?thesis by (simp add: JSONPath_Parse_def)
        qed
      qed
    qed
  qed
qed

lemma jsonpath_table_chain:
  "jsonpath_table (braced ''.spec.replicas'') =
     Inr [ListNode (map FieldNode [''spec'', ''replicas''])]"
  by (simp add: jsonpath_table_def braced_def)

lemma jsonpath_table_two:
  "jsonpath_table (braced ''.a}{.b'') =
     Inr [ListNode [FieldNode ''a''], ListNode [FieldNode ''b'']]"
  by (simp add: jsonpath_table_def braced_def)

text \<open>C9 at two expressions: a chain of two names, and two chains.\<close>

theorem C9_resolve_witness:
  "JSONPath_Parse jsonpath_table ''.spec.replicas'' = Inr [''spec'', ''replicas''] \<and>
   (\<exists>f as. JSONPath_Parse jsonpath_table ''.a}{.b'' = Inl (Errorf f as))"
proof
  show "JSONPath_Parse jsonpath_table ''.spec.replicas'' = Inr [''spec'', ''replicas'']"
    using C9_resolve [of jsonpath_table "''.spec.replicas''" "[''spec'', ''replicas'']"]
      jsonpath_table_chain
    by blast
  have "\<nexists>ns. jsonpath_table (braced ''.a}{.b'') = Inr [ListNode (map FieldNode ns)]"
    by (simp add: jsonpath_table_two)
  moreover have "jsonpath_table (braced ''.a}{.b'') \<noteq> Inr []"
    by (simp add: jsonpath_table_two)
  ultimately show "\<exists>f as. JSONPath_Parse jsonpath_table ''.a}{.b'' = Inl (Errorf f as)"
    using C9_resolve [of jsonpath_table "''.a}{.b''"] by blast
qed

section \<open>Properties of the markers\<close>

lemma GaugeMarker_path:
  "GaugeMarker_ToGenerator jp g basePath = Inr gen \<Longrightarrow>
   \<exists>ps. JSONPath_Parse jp (GaugeMarker_JSONPath g) = Inr ps \<and> storedPath gen = Some (basePath @ ps)"
  by (auto simp: GaugeMarker_ToGenerator_def storedPath_def storedMeta_def split: sum.splits)

lemma InfoMarker_path:
  "InfoMarker_ToGenerator jp i basePath = Inr gen \<Longrightarrow>
   (if InfoMarker_JSONPath i = '''' then storedPath gen = Some basePath
    else (\<exists>ps. JSONPath_Parse jp (InfoMarker_JSONPath i) = Inr ps
                \<and> storedPath gen = Some (basePath @ ps)))"
  by (auto simp: InfoMarker_ToGenerator_def storedPath_def storedMeta_def
           split: sum.splits if_splits)

lemma StateSetMarker_path:
  "StateSetMarker_ToGenerator jp s basePath = Inr gen \<Longrightarrow>
   storedPath gen = Some basePath \<and>
   (case StateSetMarker_JSONPath s of
      None \<Rightarrow> map_option StateSet_ValueFrom (StateSet (Each gen)) = Some []
    | Some j \<Rightarrow> \<exists>ps. JSONPath_Parse jp j = Inr ps
                   \<and> map_option StateSet_ValueFrom (StateSet (Each gen)) = Some ps)"
  by (auto simp: StateSetMarker_ToGenerator_def storedPath_def storedMeta_def
           split: sum.splits option.splits)

text \<open>
  Claim C4, as the code has it. The generator of a gauge marker stores the base path
  followed by the resolved path expression. The generator of an info marker stores the
  base path when the marker has no path expression, and the base path followed by the
  resolved expression when it has one. The generator of a state set marker stores the base
  path whether or not the marker has a path expression; the resolved expression is kept in
  \<^verbatim>\<open>ValueFrom\<close>.
\<close>

theorem C4_toGenerator_paths:
  "(GaugeMarker_ToGenerator jp g basePath = Inr genG \<longrightarrow>
      (\<exists>ps. JSONPath_Parse jp (GaugeMarker_JSONPath g) = Inr ps
            \<and> storedPath genG = Some (basePath @ ps)))
   \<and> (InfoMarker_ToGenerator jp i basePath = Inr genI \<longrightarrow>
      (if InfoMarker_JSONPath i = '''' then storedPath genI = Some basePath
       else (\<exists>ps. JSONPath_Parse jp (InfoMarker_JSONPath i) = Inr ps
                   \<and> storedPath genI = Some (basePath @ ps))))
   \<and> (StateSetMarker_ToGenerator jp s basePath = Inr genS \<longrightarrow>
      storedPath genS = Some basePath \<and>
      (case StateSetMarker_JSONPath s of
         None \<Rightarrow> map_option StateSet_ValueFrom (StateSet (Each genS)) = Some []
       | Some j \<Rightarrow> \<exists>ps. JSONPath_Parse jp j = Inr ps
                      \<and> map_option StateSet_ValueFrom (StateSet (Each genS)) = Some ps))"
  using GaugeMarker_path [of jp g basePath genG] InfoMarker_path [of jp i basePath genI]
        StateSetMarker_path [of jp s basePath genS]
  by blast

text \<open>C4 at a gauge, an info and a state set marker that each have a path expression,
  under the base path of a field \<^verbatim>\<open>status\<close>.\<close>

theorem C4_toGenerator_paths_witness:
  "map_sum id storedPath
     (GaugeMarker_ToGenerator jsonpath_table
        ((gauge_example ''g'')\<lparr>GaugeMarker_JSONPath := ''.spec.replicas''\<rparr>) [''status''])
     = Inr (Some [''status'', ''spec'', ''replicas''])
   \<and> map_sum id storedPath
     (InfoMarker_ToGenerator jsonpath_table
        ((info_example ''i'')\<lparr>InfoMarker_JSONPath := ''.foo''\<rparr>) [''status''])
     = Inr (Some [''status'', ''foo''])
   \<and> map_sum id storedPath
     (StateSetMarker_ToGenerator jsonpath_table
        ((stateset_example ''s'')\<lparr>StateSetMarker_JSONPath := Some ''.foo''\<rparr>) [''status''])
     = Inr (Some [''status''])"
proof -
  let ?G = "(gauge_example ''g'')\<lparr>GaugeMarker_JSONPath := ''.spec.replicas''\<rparr>"
  let ?I = "(info_example ''i'')\<lparr>InfoMarker_JSONPath := ''.foo''\<rparr>"
  let ?S = "(stateset_example ''s'')\<lparr>StateSetMarker_JSONPath := Some ''.foo''\<rparr>"
  obtain gg where gg: "GaugeMarker_ToGenerator jsonpath_table ?G [''status''] = Inr gg"
    by (simp add: example_defs eval_defs)
  obtain gi where gi: "InfoMarker_ToGenerator jsonpath_table ?I [''status''] = Inr gi"
    by (simp add: example_defs eval_defs)
  obtain gs where gs: "StateSetMarker_ToGenerator jsonpath_table ?S [''status''] = Inr gs"
    by (simp add: example_defs eval_defs)
  have p1: "JSONPath_Parse jsonpath_table ''.spec.replicas'' = Inr [''spec'', ''replicas'']"
    by (simp add: eval_defs)
  have p2: "JSONPath_Parse jsonpath_table ''.foo'' = Inr [''foo'']"
    by (simp add: eval_defs)
  have nonempty: "InfoMarker_JSONPath ?I \<noteq> ''''" by (simp add: info_example_def)
  from C4_toGenerator_paths [of jsonpath_table ?G "[''status'']" gg ?I gi ?S gs] gg gi gs
  have a: "\<exists>ps. JSONPath_Parse jsonpath_table (GaugeMarker_JSONPath ?G) = Inr ps
              \<and> storedPath gg = Some ([''status''] @ ps)"
    and b: "if InfoMarker_JSONPath ?I = '''' then storedPath gi = Some [''status'']
            else (\<exists>ps. JSONPath_Parse jsonpath_table (InfoMarker_JSONPath ?I) = Inr ps
                   \<and> storedPath gi = Some ([''status''] @ ps))"
    and c: "storedPath gs = Some [''status'']"
    by blast+
  from a p1 have "storedPath gg = Some [''status'', ''spec'', ''replicas'']"
    by (simp add: gauge_example_def)
  moreover from b nonempty p2 have "storedPath gi = Some [''status'', ''foo'']"
    by (simp add: info_example_def)
  ultimately show ?thesis using c gg gi gs by simp
qed

text \<open>C4 as the claim has it fails for a state set marker with a path expression: the
  expression \<^verbatim>\<open>.foo\<close> resolves to \<^verbatim>\<open>[foo]\<close>, and the stored path is the base path
  alone.\<close>

theorem C4_stateset_counterexample:
  "JSONPath_Parse jsonpath_table ''.foo'' = Inr [''foo'']
   \<and> map_sum id storedPath
       (StateSetMarker_ToGenerator jsonpath_table
          ((stateset_example ''s'')\<lparr>StateSetMarker_JSONPath := Some ''.foo''\<rparr>) [''status''])
     = Inr (Some [''status''])
   \<and> [''status''] \<noteq> [''status''] @ [''foo'']"
  by (simp add: example_defs eval_defs)

text \<open>In the loop of the gauge and info markers an entry \<^verbatim>\<open>.\<close> gives the empty path,
  whatever the library would say.\<close>

lemma labelsFromPathLoop_dot:
  "labelsFromPathLoop jp ((k, ''.'') # kvs) m = labelsFromPathLoop jp kvs (m(k \<mapsto> []))"
  by simp

lemma labelsFromPathLoop_StateSet_dot:
  "labelsFromPathLoop_StateSet jp ((k, ''.'') # kvs) m =
     (case JSONPath_Parse jp ''.'' of
        Inl err \<Rightarrow> Inl (klog_Fatal err)
      | Inr path \<Rightarrow> labelsFromPathLoop_StateSet jp kvs (m(k \<mapsto> path)))"
  by simp

text \<open>
  Claim C5, at a label map with the one entry \<^verbatim>\<open>self\<close> of expression \<^verbatim>\<open>.\<close>: the
  generators of the gauge and of the info marker store the empty path under the label. The
  generator of the state set marker stores what the parser makes of \<^verbatim>\<open>.\<close>, here the
  path of one empty name; and with a library that rejects every text, the state set marker
  ends the process on the parse error.
\<close>

theorem C5_stateset_dot_is_parsed:
  "resultLabel ''self''
     (GaugeMarker_ToGenerator jsonpath_table
        ((gauge_example ''g'')\<lparr>GaugeMarker_LabelsFromPath := [(''self'', ''.'')]\<rparr>) [''status''])
     = Inr (Some [])
   \<and> resultLabel ''self''
     (InfoMarker_ToGenerator jsonpath_table
        ((info_example ''i'')\<lparr>InfoMarker_LabelsFromPath := [(''self'', ''.'')]\<rparr>) [''status''])
     = Inr (Some [])
   \<and> resultLabel ''self''
     (StateSetMarker_ToGenerator jsonpath_table
        ((stateset_example ''s'')\<lparr>StateSetMarker_LabelsFromPath := [(''self'', ''.'')]\<rparr>)
        [''status''])
     = Inr (Some [''''])
   \<and> StateSetMarker_ToGenerator jsonpath_failing
        ((stateset_example ''s'')\<lparr>StateSetMarker_LabelsFromPath := [(''self'', ''.'')]\<rparr>)
        [''status'']
     = Inl (KlogFatal ''parse JSONPath: %w'' [ArgError ''unclosed action''])"
  by (simp add: example_defs eval_defs)

section \<open>Properties of the label marker\<close>

lemma pathsDiffer_iff: "length old = length new \<Longrightarrow> pathsDiffer old new \<longleftrightarrow> new \<noteq> old"
  by (induction old new rule: pathsDiffer.induct) auto

lemma labelsOf_Some:
  "labelsOf r k = Some old \<Longrightarrow> \<exists>m. Resource_LabelsFromPath r = Some m \<and> m k = Some old"
  by (cases "Resource_LabelsFromPath r") (simp_all add: labelsOf_def)

text \<open>
  Claim C6. Let the path expression of a label marker resolve to \<open>ps\<close>. When the resource
  has no entry for the label name, the call stores \<open>ps\<close> under the name and returns no
  error. When the resource has an entry \<open>old\<close> for the name, the call returns no error
  exactly when \<open>ps\<close> is \<open>old\<close>, and then the resource is as it was (one entry for the
  name); otherwise it returns the error \<^verbatim>\<open>duplicate definition for label %q\<close> on the label
  name, the resource as it was.
\<close>

theorem C6_label_from_path:
  assumes parse: "JSONPath_Parse jp (LabelFromPathMarker_JSONPath n) = Inr ps"
  shows "(labelsOf r (LabelFromPathMarker_Name n) = None \<longrightarrow>
            LabelFromPathMarker_ApplyToResource jp n r =
              (r\<lparr>Resource_LabelsFromPath :=
                    Some ((labelsOf r)(LabelFromPathMarker_Name n \<mapsto> ps))\<rparr>, None))
       \<and> (\<forall>old. labelsOf r (LabelFromPathMarker_Name n) = Some old \<longrightarrow>
            ((snd (LabelFromPathMarker_ApplyToResource jp n r) = None) = (ps = old))
            \<and> (ps = old \<longrightarrow> LabelFromPathMarker_ApplyToResource jp n r = (r, None))
            \<and> (ps \<noteq> old \<longrightarrow> LabelFromPathMarker_ApplyToResource jp n r =
                  (r, Some (Errorf ''duplicate definition for label %q''
                              [ArgString (LabelFromPathMarker_Name n)]))))"
proof (intro conjI allI impI)
  assume "labelsOf r (LabelFromPathMarker_Name n) = None"
  then show "LabelFromPathMarker_ApplyToResource jp n r =
              (r\<lparr>Resource_LabelsFromPath :=
                    Some ((labelsOf r)(LabelFromPathMarker_Name n \<mapsto> ps))\<rparr>, None)"
    using parse
    by (cases "Resource_LabelsFromPath r")
       (simp_all add: LabelFromPathMarker_ApplyToResource_def labelsOf_def Let_def)
next
  fix old
  assume old: "labelsOf r (LabelFromPathMarker_Name n) = Some old"
  then obtain m where m: "Resource_LabelsFromPath r = Some m"
    and mk: "m (LabelFromPathMarker_Name n) = Some old"
    using labelsOf_Some by blast
  have same: "ps = old \<Longrightarrow> LabelFromPathMarker_ApplyToResource jp n r = (r, None)"
  proof -
    assume eq: "ps = old"
    have "m(LabelFromPathMarker_Name n \<mapsto> old) = m" using mk by (rule map_upd_triv)
    then have "r\<lparr>Resource_LabelsFromPath := Some (m(LabelFromPathMarker_Name n \<mapsto> old))\<rparr> = r"
      using m by simp
    then show ?thesis
      using parse m mk eq pathsDiffer_iff [of old old]
      by (simp add: LabelFromPathMarker_ApplyToResource_def Let_def)
  qed
  have differ: "ps \<noteq> old \<Longrightarrow> LabelFromPathMarker_ApplyToResource jp n r =
                  (r, Some (Errorf ''duplicate definition for label %q''
                              [ArgString (LabelFromPathMarker_Name n)]))"
    using parse m mk pathsDiffer_iff [of old ps]
    by (simp add: LabelFromPathMarker_ApplyToResource_def Let_def)
  show "(snd (LabelFromPathMarker_ApplyToResource jp n r) = None) = (ps = old)"
    using same differ by (cases "ps = old") simp_all
  show "ps = old \<Longrightarrow> LabelFromPathMarker_ApplyToResource jp n r = (r, None)"
    by (rule same)
  show "ps \<noteq> old \<Longrightarrow> LabelFromPathMarker_ApplyToResource jp n r =
                  (r, Some (Errorf ''duplicate definition for label %q''
                              [ArgString (LabelFromPathMarker_Name n)]))"
    by (rule differ)
qed

text \<open>C6 on a resource with the label \<^verbatim>\<open>team\<close> at path \<^verbatim>\<open>[foo]\<close>: the same path
  again, another path for \<^verbatim>\<open>team\<close>, and a label that the resource does not have.\<close>

theorem C6_label_from_path_witness:
  "LabelFromPathMarker_ApplyToResource jsonpath_table
       \<lparr>LabelFromPathMarker_Name = ''team'', LabelFromPathMarker_JSONPath = ''.foo''\<rparr>
       (resource_example None ''Widget'')
     = (resource_example None ''Widget'', None)
   \<and> LabelFromPathMarker_ApplyToResource jsonpath_table
       \<lparr>LabelFromPathMarker_Name = ''team'', LabelFromPathMarker_JSONPath = ''.bar''\<rparr>
       (resource_example None ''Widget'')
     = (resource_example None ''Widget'',
        Some (Errorf ''duplicate definition for label %q'' [ArgString ''team'']))
   \<and> LabelFromPathMarker_ApplyToResource jsonpath_table
       \<lparr>LabelFromPathMarker_Name = ''owner'', LabelFromPathMarker_JSONPath = ''.bar''\<rparr>
       (resource_example None ''Widget'')
     = ((resource_example None ''Widget'')
          \<lparr>Resource_LabelsFromPath :=
             Some ((labelsOf (resource_example None ''Widget''))(''owner'' \<mapsto> [''bar'']))\<rparr>,
        None)"
proof -
  let ?R = "resource_example None ''Widget''"
  let ?same = "\<lparr>LabelFromPathMarker_Name = ''team'', LabelFromPathMarker_JSONPath = ''.foo''\<rparr>"
  let ?other = "\<lparr>LabelFromPathMarker_Name = ''team'', LabelFromPathMarker_JSONPath = ''.bar''\<rparr>"
  let ?new = "\<lparr>LabelFromPathMarker_Name = ''owner'', LabelFromPathMarker_JSONPath = ''.bar''\<rparr>"
  have foo: "JSONPath_Parse jsonpath_table (LabelFromPathMarker_JSONPath ?same) = Inr [''foo'']"
    by (simp add: eval_defs)
  have bar: "JSONPath_Parse jsonpath_table (LabelFromPathMarker_JSONPath ?other) = Inr [''bar'']"
    by (simp add: eval_defs)
  have bar': "JSONPath_Parse jsonpath_table (LabelFromPathMarker_JSONPath ?new) = Inr [''bar'']"
    by (simp add: eval_defs)
  have team: "labelsOf ?R ''team'' = Some [''foo'']"
    by (simp add: labelsOf_def resource_example_def)
  have owner: "labelsOf ?R ''owner'' = None"
    by (simp add: labelsOf_def resource_example_def)
  from C6_label_from_path [OF foo, of ?R] team
  have 1: "LabelFromPathMarker_ApplyToResource jsonpath_table ?same ?R = (?R, None)"
    by simp
  from C6_label_from_path [OF bar, of ?R] team
  have 2: "LabelFromPathMarker_ApplyToResource jsonpath_table ?other ?R =
             (?R, Some (Errorf ''duplicate definition for label %q'' [ArgString ''team'']))"
    by simp
  from C6_label_from_path [OF bar', of ?R] owner
  have 3: "LabelFromPathMarker_ApplyToResource jsonpath_table ?new ?R =
             (?R\<lparr>Resource_LabelsFromPath := Some ((labelsOf ?R)(''owner'' \<mapsto> [''bar'']))\<rparr>, None)"
    by simp
  from 1 2 3 show ?thesis by blast
qed

text \<open>
  Claim C10. When the call on a label marker returns the error
  \<^verbatim>\<open>duplicate definition for label %q\<close>, the resource after the call is the resource
  before it: the entry of the label, the other labels, the name prefix, the generators and
  the group, version and kind.
\<close>

theorem C10_conflict_leaves_resource:
  assumes "snd (LabelFromPathMarker_ApplyToResource jp n r) =
             Some (Errorf ''duplicate definition for label %q'' as)"
  shows "fst (LabelFromPathMarker_ApplyToResource jp n r) = r"
proof (cases "JSONPath_Parse jp (LabelFromPathMarker_JSONPath n)")
  case (Inl err)
  with assms JSONPath_Parse_errors [OF Inl, of as] show ?thesis
    by (simp add: LabelFromPathMarker_ApplyToResource_def Let_def split: if_splits)
next
  case (Inr ps)
  show ?thesis
  proof (cases "Resource_LabelsFromPath r")
    case None
    with assms Inr show ?thesis
      by (simp add: LabelFromPathMarker_ApplyToResource_def Let_def)
  next
    case (Some m)
    with assms Inr show ?thesis
      by (simp add: LabelFromPathMarker_ApplyToResource_def Let_def
               split: option.splits if_splits)
  qed
qed

text \<open>C10 on the resource with the label \<^verbatim>\<open>team\<close> at \<^verbatim>\<open>[foo]\<close> and a marker for
  \<^verbatim>\<open>team\<close> at \<^verbatim>\<open>[bar]\<close>.\<close>

theorem C10_conflict_leaves_resource_witness:
  "snd (LabelFromPathMarker_ApplyToResource jsonpath_table
          \<lparr>LabelFromPathMarker_Name = ''team'', LabelFromPathMarker_JSONPath = ''.bar''\<rparr>
          (resource_example (Some ''widget'') ''Widget''))
     = Some (Errorf ''duplicate definition for label %q'' [ArgString ''team''])
   \<and> fst (LabelFromPathMarker_ApplyToResource jsonpath_table
          \<lparr>LabelFromPathMarker_Name = ''team'', LabelFromPathMarker_JSONPath = ''.bar''\<rparr>
          (resource_example (Some ''widget'') ''Widget''))
     = resource_example (Some ''widget'') ''Widget''"
proof -
  let ?R = "resource_example (Some ''widget'') ''Widget''"
  let ?n = "\<lparr>LabelFromPathMarker_Name = ''team'', LabelFromPathMarker_JSONPath = ''.bar''\<rparr>"
  have conflict: "snd (LabelFromPathMarker_ApplyToResource jsonpath_table ?n ?R)
                    = Some (Errorf ''duplicate definition for label %q'' [ArgString ''team''])"
    by (simp add: LabelFromPathMarker_ApplyToResource_def resource_example_def eval_defs)
  from C10_conflict_leaves_resource [OF conflict] conflict show ?thesis by blast
qed

section \<open>Properties of the generator assembler\<close>

text \<open>Every generator that a marker gives stores a path, and so does every generator that
  the walk of a type returns.\<close>

lemma ToGenerator_stored:
  "ToGenerator jp val basePath = Some (Inr g) \<Longrightarrow> storedPath g \<noteq> None"
  by (cases val)
     (auto simp: GaugeMarker_ToGenerator_def InfoMarker_ToGenerator_def
                 StateSetMarker_ToGenerator_def storedPath_def storedMeta_def Let_def
           split: sum.splits if_splits)

lemma generatorsFromValues_stored:
  "generatorsFromValues jp vals basePath acc = Inr gs \<Longrightarrow>
   \<forall>g\<in>set acc. storedPath g \<noteq> None \<Longrightarrow> \<forall>g\<in>set gs. storedPath g \<noteq> None"
proof (induction vals arbitrary: acc)
  case Nil
  then show ?case by simp
next
  case (Cons val vals)
  show ?case
  proof (cases "ToGenerator jp val basePath")
    case None
    with Cons show ?thesis by simp
  next
    case (Some r)
    show ?thesis
    proof (cases r)
      case (Inl err)
      with Some Cons.prems show ?thesis by simp
    next
      case (Inr g)
      with Some have "storedPath g \<noteq> None" using ToGenerator_stored by blast
      with Cons.prems(2) have "\<forall>x\<in>set (acc @ [g]). storedPath x \<noteq> None" by simp
      moreover from Cons.prems(1) Some Inr
      have "generatorsFromValues jp vals basePath (acc @ [g]) = Inr gs" by simp
      ultimately show ?thesis using Cons.IH by blast
    qed
  qed
qed

lemma generatorsFromMarkerNames_stored:
  "generatorsFromMarkerNames jp m basePath acc = Inr gs \<Longrightarrow>
   \<forall>g\<in>set acc. storedPath g \<noteq> None \<Longrightarrow> \<forall>g\<in>set gs. storedPath g \<noteq> None"
proof (induction m arbitrary: acc)
  case Nil
  then show ?case by simp
next
  case (Cons entry m)
  obtain name markerVals where entry: "entry = (name, markerVals)" by (cases entry)
  show ?case
  proof (cases "generatorsFromValues jp markerVals basePath acc")
    case (Inl err)
    with Cons.prems entry show ?thesis by simp
  next
    case (Inr acc')
    with Cons.prems(2) have "\<forall>g\<in>set acc'. storedPath g \<noteq> None"
      using generatorsFromValues_stored by blast
    moreover from Cons.prems(1) entry Inr
    have "generatorsFromMarkerNames jp m basePath acc' = Inr gs" by simp
    ultimately show ?thesis using Cons.IH by blast
  qed
qed

lemma generatorsFromMarkers_stored:
  "generatorsFromMarkers jp m basePath = Inr gs \<Longrightarrow> \<forall>g\<in>set gs. storedPath g \<noteq> None"
  unfolding generatorsFromMarkers_def
  using generatorsFromMarkerNames_stored [of jp m basePath "[]" gs] by simp

lemma prepend_stored:
  assumes "storedPath g = Some ps"
  shows "\<exists>g'. prependPathOnGenerator g n = Inr g' \<and> storedPath g' = Some (n # ps)
              \<and> Type (Each g') = Type (Each g) \<and> Name g' = Name g \<and> Help g' = Help g"
  using assms
  by (cases "Type (Each g)")
     (auto simp: prependPathOnGenerator_def storedPath_def storedMeta_def)

lemma prependLoop_stored:
  "\<forall>g\<in>set sub. storedPath g \<noteq> None \<Longrightarrow>
   \<exists>sub'. prependLoop sub n acc = Inr (acc @ sub') \<and> length sub' = length sub \<and>
     (\<forall>i<length sub. \<exists>ps. storedPath (sub ! i) = Some ps \<and> storedPath (sub' ! i) = Some (n # ps)
        \<and> Type (Each (sub' ! i)) = Type (Each (sub ! i)) \<and> Name (sub' ! i) = Name (sub ! i))"
proof (induction sub arbitrary: acc)
  case Nil
  then show ?case by simp
next
  case (Cons g sub)
  from Cons.prems obtain ps where ps: "storedPath g = Some ps" by auto
  from prepend_stored [OF ps, of n] obtain g' where
    g': "prependPathOnGenerator g n = Inr g'" "storedPath g' = Some (n # ps)"
        "Type (Each g') = Type (Each g)" "Name g' = Name g"
    by blast
  from Cons.prems have "\<forall>x\<in>set sub. storedPath x \<noteq> None" by simp
  from Cons.IH [OF this, of "acc @ [g']"] obtain sub' where
    sub': "prependLoop sub n (acc @ [g']) = Inr ((acc @ [g']) @ sub')" "length sub' = length sub"
      "\<forall>i<length sub. \<exists>ps. storedPath (sub ! i) = Some ps \<and> storedPath (sub' ! i) = Some (n # ps)
        \<and> Type (Each (sub' ! i)) = Type (Each (sub ! i)) \<and> Name (sub' ! i) = Name (sub ! i)"
    by blast
  have "prependLoop (g # sub) n acc = Inr (acc @ (g' # sub'))" using g'(1) sub'(1) by simp
  moreover have "length (g' # sub') = length (g # sub)" using sub'(2) by simp
  moreover have "\<forall>i<length (g # sub). \<exists>ps. storedPath ((g # sub) ! i) = Some ps
        \<and> storedPath ((g' # sub') ! i) = Some (n # ps)
        \<and> Type (Each ((g' # sub') ! i)) = Type (Each ((g # sub) ! i))
        \<and> Name ((g' # sub') ! i) = Name ((g # sub) ! i)"
  proof (intro allI impI)
    fix i assume "i < length (g # sub)"
    then show "\<exists>ps. storedPath ((g # sub) ! i) = Some ps
        \<and> storedPath ((g' # sub') ! i) = Some (n # ps)
        \<and> Type (Each ((g' # sub') ! i)) = Type (Each ((g # sub) ! i))
        \<and> Name ((g' # sub') ! i) = Name ((g # sub) ! i)"
      using ps g' sub'(3) by (cases i) simp_all
  qed
  ultimately show ?case by blast
qed

lemma prependLoop_result_stored:
  assumes "prependLoop sub n acc = Inr gs" "\<forall>g\<in>set sub. storedPath g \<noteq> None"
    "\<forall>g\<in>set acc. storedPath g \<noteq> None"
  shows "\<forall>g\<in>set gs. storedPath g \<noteq> None"
proof -
  from prependLoop_stored [OF assms(2), of n acc] obtain sub' where
    s: "prependLoop sub n acc = Inr (acc @ sub')" "length sub' = length sub"
      "\<forall>i<length sub. \<exists>ps. storedPath (sub ! i) = Some ps \<and> storedPath (sub' ! i) = Some (n # ps)
        \<and> Type (Each (sub' ! i)) = Type (Each (sub ! i)) \<and> Name (sub' ! i) = Name (sub ! i)"
    by blast
  have "\<forall>g\<in>set sub'. storedPath g \<noteq> None"
  proof
    fix g assume "g \<in> set sub'"
    then obtain i where "i < length sub'" "sub' ! i = g" by (auto simp: in_set_conv_nth)
    with s(2,3) show "storedPath g \<noteq> None" by auto
  qed
  with s(1) assms(1,3) show ?thesis by auto
qed

lemma generatorsFor_stored:
  "generatorsFor e \<lparr>ctx_pkg = pkg, ctx_generatorRequester = req\<rparr> expr = Some (Inr sub) \<Longrightarrow>
   requesterStored req \<Longrightarrow> \<forall>g\<in>set sub. storedPath g \<noteq> None"
proof (induction expr)
  case (Ident name)
  then show ?case
    by (auto simp: localNamedToGenerators_def requestGenerator_def requesterStored_def Let_def
             split: go_type.splits)
qed simp_all

lemma fieldsLoop_stored:
  "fieldsLoop e req typ fs acc = Some (Inr gs) \<Longrightarrow> requesterStored req \<Longrightarrow>
   \<forall>g\<in>set acc. storedPath g \<noteq> None \<Longrightarrow> \<forall>g\<in>set gs. storedPath g \<noteq> None"
proof (induction fs arbitrary: acc)
  case Nil
  then show ?case by simp
next
  case (Cons f fs)
  show ?case
  proof (cases "Field_jsonTag f")
    case None
    with Cons show ?thesis by simp
  next
    case (Some jsonTag)
    show ?thesis
    proof (cases "strings_Split jsonTag (CHR '','')")
      case Nil
      with Some Cons.prems show ?thesis by simp
    next
      case (Cons opt0 opts)
      show ?thesis
      proof (cases "opts = [] \<and> opt0 = ''-''")
        case True
        with Some Cons Cons.prems Cons.IH show ?thesis by simp
      next
        case False
        from Cons.prems(1) Some Cons False obtain own pkg sub acc' where
          own: "generatorsFromMarkers (jsonpath e) (Field_Markers f) [opt0] = Inr own"
          and pkg: "TypeIdent_Package typ = Some pkg"
          and sub: "generatorsFor e \<lparr>ctx_pkg = pkg, ctx_generatorRequester = req\<rparr> (Field_Type f)
                      = Some (Inr sub)"
          and acc': "prependLoop sub opt0 (acc @ own) = Inr acc'"
          and rest: "fieldsLoop e req typ fs acc' = Some (Inr gs)"
          by atomize_elim (auto split: sum.splits option.splits if_splits)
        from own have "\<forall>g\<in>set own. storedPath g \<noteq> None" by (rule generatorsFromMarkers_stored)
        with Cons.prems(3) have 1: "\<forall>g\<in>set (acc @ own). storedPath g \<noteq> None" by auto
        from sub Cons.prems(2) have 2: "\<forall>g\<in>set sub. storedPath g \<noteq> None"
          by (rule generatorsFor_stored)
        from prependLoop_result_stored [OF acc' 2 1] have "\<forall>g\<in>set acc'. storedPath g \<noteq> None" .
        with rest Cons.prems(2) show ?thesis using Cons.IH by blast
      qed
    qed
  qed
qed

lemma NeedMetricsGeneratorFor_stored: "requesterStored (NeedMetricsGeneratorFor depth e p)"
proof (induction depth)
  case 0
  then show ?case by (simp add: requesterStored_def)
next
  case (Suc depth)
  show ?case
    unfolding requesterStored_def
  proof (intro allI impI)
    fix t gs
    assume r: "NeedMetricsGeneratorFor (Suc depth) e p t = Some (Inr gs)"
    show "\<forall>g\<in>set gs. storedPath g \<noteq> None"
    proof (cases "FlattenedMetrics p t \<noteq> None")
      case True
      with r show ?thesis by auto
    next
      case False
      with r obtain info generators where
        ti: "Types p t = Some info" and
        g0: "generatorsFromMarkers (jsonpath e) (TypeInfo_Markers info) [] = Inr generators"
        and fl: "fieldsLoop e (NeedMetricsGeneratorFor depth e p) t (TypeInfo_Fields info) generators
                  = Some (Inr gs)"
        by atomize_elim (auto split: option.splits sum.splits)
      from g0 have "\<forall>g\<in>set generators. storedPath g \<noteq> None"
        by (rule generatorsFromMarkers_stored)
      with fl Suc show ?thesis using fieldsLoop_stored by blast
    qed
  qed
qed

text \<open>
  Claim C7. Prepending a name to a generator that stores a path of any of the three kinds
  gives the generator with the name put before its path, its type and name as they were.
  For a field whose tag gives the external name \<open>n\<close> and does not skip the field, every
  generator that the recursion into the type of the field returns stores a path, and the
  loop goes on with the generators so far, those of the markers of the field, and those of
  the recursion with \<open>n\<close> put before their paths, in their order. The type \<^verbatim>\<open>Outer\<close> of
  the examples, with its field \<^verbatim>\<open>status\<close> whose type has the field \<^verbatim>\<open>replicas\<close>
  with a gauge without path expression, gives one generator, of path
  \<^verbatim>\<open>[status, replicas]\<close>.
\<close>

theorem C7_prepend_external_name:
  "(\<forall>g ps. storedPath g = Some ps \<longrightarrow>
      (\<exists>g'. prependPathOnGenerator g n = Inr g' \<and> storedPath g' = Some (n # ps)
             \<and> Type (Each g') = Type (Each g) \<and> Name g' = Name g))
   \<and> (Field_jsonTag f = Some jsonTag \<longrightarrow> strings_Split jsonTag (CHR '','') = n # opts \<longrightarrow>
      \<not> (opts = [] \<and> n = ''-'') \<longrightarrow>
      generatorsFromMarkers (jsonpath e) (Field_Markers f) [n] = Inr own \<longrightarrow>
      TypeIdent_Package tid = Some pkg \<longrightarrow>
      generatorsFor e \<lparr>ctx_pkg = pkg, ctx_generatorRequester = NeedMetricsGeneratorFor depth e p\<rparr>
        (Field_Type f) = Some (Inr sub) \<longrightarrow>
      (\<exists>sub'. fieldsLoop e (NeedMetricsGeneratorFor depth e p) tid (f # fs) generators
                 = fieldsLoop e (NeedMetricsGeneratorFor depth e p) tid fs (generators @ own @ sub')
          \<and> length sub' = length sub
          \<and> (\<forall>i<length sub. \<exists>ps. storedPath (sub ! i) = Some ps
                \<and> storedPath (sub' ! i) = Some (n # ps)
                \<and> Type (Each (sub' ! i)) = Type (Each (sub ! i))
                \<and> Name (sub' ! i) = Name (sub ! i))))
   \<and> map_option (map_sum id (map storedPath))
       (NeedMetricsGeneratorFor (Suc (Suc 0)) env_example parser_example
          (typeIdent_example pkg_v1 ''Outer''))
     = Some (Inr [Some [''status'', ''replicas'']])"
proof (intro conjI allI impI)
  fix g ps assume "storedPath g = Some ps"
  from prepend_stored [OF this, of n]
  show "\<exists>g'. prependPathOnGenerator g n = Inr g' \<and> storedPath g' = Some (n # ps)
             \<and> Type (Each g') = Type (Each g) \<and> Name g' = Name g" by blast
next
  assume tag: "Field_jsonTag f = Some jsonTag"
    and split: "strings_Split jsonTag (CHR '','') = n # opts"
    and noskip: "\<not> (opts = [] \<and> n = ''-'')"
    and own: "generatorsFromMarkers (jsonpath e) (Field_Markers f) [n] = Inr own"
    and pkg: "TypeIdent_Package tid = Some pkg"
    and sub: "generatorsFor e
                \<lparr>ctx_pkg = pkg, ctx_generatorRequester = NeedMetricsGeneratorFor depth e p\<rparr>
                (Field_Type f) = Some (Inr sub)"
  from sub NeedMetricsGeneratorFor_stored have "\<forall>g\<in>set sub. storedPath g \<noteq> None"
    by (rule generatorsFor_stored)
  from prependLoop_stored [OF this, of n "generators @ own"] obtain sub' where
    s: "prependLoop sub n (generators @ own) = Inr ((generators @ own) @ sub')"
       "length sub' = length sub"
       "\<forall>i<length sub. \<exists>ps. storedPath (sub ! i) = Some ps \<and> storedPath (sub' ! i) = Some (n # ps)
        \<and> Type (Each (sub' ! i)) = Type (Each (sub ! i)) \<and> Name (sub' ! i) = Name (sub ! i)"
    by blast
  have "fieldsLoop e (NeedMetricsGeneratorFor depth e p) tid (f # fs) generators
          = fieldsLoop e (NeedMetricsGeneratorFor depth e p) tid fs (generators @ own @ sub')"
  proof -
    from noskip have ns: "(opts = [] \<and> n = ''-'') = False" by simp
    show ?thesis
      using tag split own pkg sub s(1) by (simp add: ns)
  qed
  with s(2,3)
  show "\<exists>sub'. fieldsLoop e (NeedMetricsGeneratorFor depth e p) tid (f # fs) generators
                 = fieldsLoop e (NeedMetricsGeneratorFor depth e p) tid fs (generators @ own @ sub')
          \<and> length sub' = length sub
          \<and> (\<forall>i<length sub. \<exists>ps. storedPath (sub ! i) = Some ps
                \<and> storedPath (sub' ! i) = Some (n # ps)
                \<and> Type (Each (sub' ! i)) = Type (Each (sub ! i))
                \<and> Name (sub' ! i) = Name (sub ! i))"
    by blast
next
  show "map_option (map_sum id (map storedPath))
       (NeedMetricsGeneratorFor (Suc (Suc 0)) env_example parser_example
          (typeIdent_example pkg_v1 ''Outer''))
     = Some (Inr [Some [''status'', ''replicas'']])"
    by (simp add: example_defs eval_defs)
qed

text \<open>C7 at the generator of the gauge on \<^verbatim>\<open>replicas\<close> and at the field
  \<^verbatim>\<open>status\<close> of \<^verbatim>\<open>Outer\<close>.\<close>

theorem C7_prepend_external_name_witness:
  "map_sum id storedPath (prependPathOnGenerator generator_example ''status'')
     = Inr (Some [''status'', ''replicas''])
   \<and> map_option (map_sum id (map storedPath))
       (fieldsLoop env_example (NeedMetricsGeneratorFor (Suc 0) env_example parser_example)
          (typeIdent_example pkg_v1 ''Outer'') [status_field] [])
     = Some (Inr [Some [''status'', ''replicas'']])"
proof -
  let ?req = "NeedMetricsGeneratorFor (Suc 0) env_example parser_example"
  let ?tid = "typeIdent_example pkg_v1 ''Outer''"
  note T = C7_prepend_external_name
    [where n = "''status''" and f = status_field and jsonTag = "''status''" and opts = "[]"
       and e = env_example and own = "[]" and tid = "?tid" and pkg = pkg_v1
       and depth = "Suc 0" and p = parser_example and sub = "[generator_example]"
       and fs = "[]" and generators = "[]"]
  have sp: "storedPath generator_example = Some [''replicas'']"
    by (simp add: generator_example_def storedPath_def storedMeta_def)
  from T sp obtain g' where g': "prependPathOnGenerator generator_example ''status'' = Inr g'"
    "storedPath g' = Some [''status'', ''replicas'']"
    by blast
  have tag: "Field_jsonTag status_field = Some ''status''" by (simp add: status_field_def)
  have split: "strings_Split ''status'' (CHR '','') = [''status'']" by simp
  have noskip: "\<not> (([]::string list) = [] \<and> ''status'' = ''-'')" by simp
  have own: "generatorsFromMarkers (jsonpath env_example) (Field_Markers status_field)
               [''status''] = Inr []"
    by (simp add: status_field_def generatorsFromMarkers_def)
  have pkg: "TypeIdent_Package ?tid = Some pkg_v1" by (simp add: typeIdent_example_def)
  have sub: "generatorsFor env_example
               \<lparr>ctx_pkg = pkg_v1, ctx_generatorRequester = ?req\<rparr>
               (Field_Type status_field) = Some (Inr [generator_example])"
    by (simp add: example_defs eval_defs)
  from T tag split noskip own pkg sub obtain sub' where
    loop: "fieldsLoop env_example ?req ?tid [status_field] []
             = fieldsLoop env_example ?req ?tid [] ([] @ [] @ sub')"
    and len: "length sub' = length [generator_example]"
    and each: "\<forall>i<length [generator_example].
                 \<exists>ps. storedPath ([generator_example] ! i) = Some ps
                    \<and> storedPath (sub' ! i) = Some (''status'' # ps)
                    \<and> Type (Each (sub' ! i)) = Type (Each ([generator_example] ! i))
                    \<and> Name (sub' ! i) = Name ([generator_example] ! i)"
    by blast
  from len obtain x where x: "sub' = [x]" by (cases sub') simp_all
  from each sp x have "storedPath x = Some [''status'', ''replicas'']" by simp
  with loop x have "map_option (map_sum id (map storedPath))
       (fieldsLoop env_example ?req ?tid [status_field] [])
     = Some (Inr [Some [''status'', ''replicas'']])"
    by simp
  with g' show ?thesis by simp
qed

text \<open>
  Claim C2, at the type \<^verbatim>\<open>Widget\<close> of the examples, which has a gauge on the type. The
  call returns the generator of the gauge. \<^verbatim>\<open>NeedMetricsGeneratorFor\<close> assigns to no
  field of the parser, so the parser that a second call finds is the one of the first, with
  no entry for the type in \<open>FlattenedMetrics\<close>: the second call is the first call again,
  and returns the generator of the gauge, not the empty sequence.
\<close>

theorem C2_second_call_returns_generators:
  "map_option (map_sum id (map Name))
     (NeedMetricsGeneratorFor (Suc 0) env_example parser_example
        (typeIdent_example pkg_v1 ''Widget''))
     = Some (Inr [''widget_count''])
   \<and> FlattenedMetrics parser_example (typeIdent_example pkg_v1 ''Widget'') = None"
  by (simp add: example_defs eval_defs)

text \<open>A call that has returned within a depth returns the same within every greater
  depth: the depth bounds the calls and changes no result.\<close>

lemma generatorsFor_requester_mono:
  assumes "\<And>t r. req t = Some r \<Longrightarrow> req' t = Some r"
  shows "generatorsFor e \<lparr>ctx_pkg = pkg, ctx_generatorRequester = req\<rparr> expr = Some r \<Longrightarrow>
         generatorsFor e \<lparr>ctx_pkg = pkg, ctx_generatorRequester = req'\<rparr> expr = Some r"
proof (induction expr)
  case (Ident name)
  then show ?case
    using assms
    by (auto simp: localNamedToGenerators_def requestGenerator_def Let_def
             split: go_type.splits)
qed simp_all

lemma fieldsLoop_requester_mono:
  assumes "\<And>t r. req t = Some r \<Longrightarrow> req' t = Some r"
  shows "fieldsLoop e req typ fs acc = Some r \<Longrightarrow> fieldsLoop e req' typ fs acc = Some r"
proof (induction fs arbitrary: acc)
  case Nil
  then show ?case by simp
next
  case (Cons f fs)
  show ?case
  proof (cases "Field_jsonTag f")
    case None
    with Cons show ?thesis by simp
  next
    case (Some jsonTag)
    show ?thesis
    proof (cases "strings_Split jsonTag (CHR '','')")
      case Nil
      with Some Cons.prems show ?thesis by simp
    next
      case split: (Cons opt0 opts)
      show ?thesis
      proof (cases "opts = [] \<and> opt0 = ''-''")
        case True
        with Some split Cons.prems Cons.IH show ?thesis by simp
      next
        case False
        then have ns: "(opts = [] \<and> opt0 = ''-'') = False" by simp
        show ?thesis
        proof (cases "generatorsFromMarkers (jsonpath e) (Field_Markers f) [opt0]")
          case (Inl err)
          with Some split Cons.prems show ?thesis by (auto simp add: ns)
        next
          case own: (Inr own)
          show ?thesis
          proof (cases "TypeIdent_Package typ")
            case None
            with Some split own Cons.prems show ?thesis by (auto simp add: ns)
          next
            case pkg: (Some pkg)
            from Cons.prems Some split own pkg obtain res where
              res: "generatorsFor e \<lparr>ctx_pkg = pkg, ctx_generatorRequester = req\<rparr>
                      (Field_Type f) = Some res"
              by (cases "generatorsFor e \<lparr>ctx_pkg = pkg, ctx_generatorRequester = req\<rparr>
                           (Field_Type f)") (simp_all add: ns)
            from generatorsFor_requester_mono [OF assms res]
            have res': "generatorsFor e \<lparr>ctx_pkg = pkg, ctx_generatorRequester = req'\<rparr>
                          (Field_Type f) = Some res"
              by simp
            show ?thesis
            proof (cases res)
              case (Inl err)
              with Some split own pkg res res' Cons.prems show ?thesis
                by (auto simp add: ns)
            next
              case sub: (Inr sub)
              show ?thesis
              proof (cases "prependLoop sub opt0 (acc @ own)")
                case (Inl err)
                with Some split own pkg res res' sub Cons.prems show ?thesis
                  by (auto simp add: ns)
              next
                case (Inr acc')
                with Some split own pkg res sub Cons.prems
                have "fieldsLoop e req typ fs acc' = Some r" by (simp add: ns)
                then have "fieldsLoop e req' typ fs acc' = Some r" by (rule Cons.IH)
                with Some split own pkg res' sub Inr show ?thesis by (simp add: ns)
              qed
            qed
          qed
        qed
      qed
    qed
  qed
qed

lemma NeedMetricsGeneratorFor_Suc:
  "NeedMetricsGeneratorFor depth e p t = Some r \<Longrightarrow>
   NeedMetricsGeneratorFor (Suc depth) e p t = Some r"
proof (induction depth arbitrary: t r)
  case 0
  then show ?case by simp
next
  case (Suc depth)
  have step: "\<And>t r. NeedMetricsGeneratorFor depth e p t = Some r \<Longrightarrow>
                NeedMetricsGeneratorFor (Suc depth) e p t = Some r"
    by (rule Suc.IH)
  show ?case
  proof (cases "FlattenedMetrics p t \<noteq> None")
    case True
    with Suc.prems show ?thesis by auto
  next
    case False
    show ?thesis
    proof (cases "Types p t")
      case None
      with False Suc.prems show ?thesis by auto
    next
      case (Some info)
      show ?thesis
      proof (cases "generatorsFromMarkers (jsonpath e) (TypeInfo_Markers info) []")
        case (Inl err)
        with False Some Suc.prems show ?thesis by auto
      next
        case (Inr generators)
        with False Some Suc.prems
        have "fieldsLoop e (NeedMetricsGeneratorFor depth e p) t (TypeInfo_Fields info) generators
                = Some r"
          by auto
        from fieldsLoop_requester_mono [where req' = "NeedMetricsGeneratorFor (Suc depth) e p",
               OF step this]
        have "fieldsLoop e (NeedMetricsGeneratorFor (Suc depth) e p) t (TypeInfo_Fields info)
                generators = Some r" .
        with False Some Inr show ?thesis
          using NeedMetricsGeneratorFor.simps(2) [of "Suc depth" e p t] by auto
      qed
    qed
  qed
qed

lemma NeedMetricsGeneratorFor_depth_mono:
  "NeedMetricsGeneratorFor depth e p t = Some r \<Longrightarrow>
   NeedMetricsGeneratorFor (depth + k) e p t = Some r"
proof (induction k)
  case 0
  then show ?case by simp
next
  case (Suc k)
  then have "NeedMetricsGeneratorFor (depth + k) e p t = Some r" by simp
  then have "NeedMetricsGeneratorFor (Suc (depth + k)) e p t = Some r"
    by (rule NeedMetricsGeneratorFor_Suc)
  then show ?case by simp
qed

lemma node_step:
  "NeedMetricsGeneratorFor depth env_example parser_example (typeIdent_example pkg_v1 ''Node'') = None
   \<Longrightarrow> NeedMetricsGeneratorFor (Suc depth) env_example parser_example
         (typeIdent_example pkg_v1 ''Node'') = None"
  by (simp add: example_defs eval_defs)

text \<open>
  Claim C3, at the type \<^verbatim>\<open>Node\<close> of the examples, whose one field is a pointer to
  \<^verbatim>\<open>Node\<close>: whatever the depth allowed to the nested calls, the call does not return.
  Nothing enters \<open>FlattenedMetrics\<close>, so the test at the head of the function never holds
  and each call for \<^verbatim>\<open>Node\<close> makes the next.
\<close>

theorem C3_self_reference_never_returns:
  "\<forall>depth. NeedMetricsGeneratorFor depth env_example parser_example
             (typeIdent_example pkg_v1 ''Node'') = None"
proof
  fix depth
  show "NeedMetricsGeneratorFor depth env_example parser_example
          (typeIdent_example pkg_v1 ''Node'') = None"
  proof (induction depth)
    case 0
    show ?case by simp
  next
    case (Suc depth)
    then show ?case by (rule node_step)
  qed
qed

section \<open>Properties of the resource builder\<close>










section \<open>Properties of the comparison of resources\<close>

text \<open>With no prefix on either side the comparison is that of the strings of group,
  version and kind. With a prefix on both sides the first prefix is not read: the
  comparison holds exactly when the second prefix is not the empty string.\<close>

lemma resourceLess_neither_set:
  "resourceLess (ri\<lparr>MetricNamePrefix := None\<rparr>) (rj\<lparr>MetricNamePrefix := None\<rparr>)
     = Inr (gvkString ri < gvkString rj)"
  by (simp add: resourceLess_def gvkString_def)

lemma resourceLess_both_set:
  "resourceLess (ri\<lparr>MetricNamePrefix := Some a\<rparr>) (rj\<lparr>MetricNamePrefix := Some b\<rparr>)
     = Inr (b \<noteq> '''')"
  by (cases b) (simp_all add: resourceLess_def)

lemma resourceLess_first_unset:
  "resourceLess (ri\<lparr>MetricNamePrefix := None\<rparr>) (rj\<lparr>MetricNamePrefix := Some b\<rparr>)
     = Inl (RuntimePanic ''nil pointer dereference'')"
  by (simp add: resourceLess_def)

text \<open>
  Claim C1, at two resources of prefixes \<^verbatim>\<open>b\<close> and \<^verbatim>\<open>a\<close>: the comparison puts the
  first before the second, and the second before the first, while \<^verbatim>\<open>b\<close> is not below
  \<^verbatim>\<open>a\<close>; the resources are not ordered by their prefixes.
\<close>

theorem C1_both_prefixed_not_ordered:
  "resourceLess (resource_example (Some ''b'') ''A'') (resource_example (Some ''a'') ''B'')
     = Inr True
   \<and> resourceLess (resource_example (Some ''a'') ''B'') (resource_example (Some ''b'') ''A'')
     = Inr True
   \<and> \<not> ''b'' < ''a''"
  by (simp add: resourceLess_def resource_example_def)

end
